theory Spec2Isabelle
  imports Main
begin

section \<open>The Notes feature: a shallow embedding\<close>

text \<open>
  The theory embeds the client-side logic of the Notes pages: the note model and its
  validation (\<^verbatim>\<open>note.model.ts\<close>), the change-dict service
  (\<^verbatim>\<open>NoteUpdateService\<close>), the dashboard's unpublish operation
  (\<^verbatim>\<open>NotesPageComponent.unpublishedNotesPost\<close>), the search service
  (\<^verbatim>\<open>NotePostSearchService\<close>) and the home page component that pages through its
  results (\<^verbatim>\<open>NoteHomePageComponent\<close>).

  JavaScript numbers that the code uses as counters and indices are integers here
  (\<open>int\<close>); a field that may still be \<^verbatim>\<open>undefined\<close> or \<^verbatim>\<open>null\<close> carries that
  possibility in its type. Strings are \<open>string\<close>; \<open>length\<close> stands for the
  \<^verbatim>\<open>.length\<close> of a JavaScript string.
\<close>

subsection \<open>JavaScript values and array primitives\<close>

text \<open>
  A value of type \<^verbatim>\<open>number | null\<close> that may also be uninitialised. \<open>Undefined\<close> is the
  value of a field declared with \<^verbatim>\<open>!\<close> and not yet assigned; \<open>NaN\<close> arises from
  \<^verbatim>\<open>Math.min\<close> on such a field.
\<close>

datatype jsnum = Undefined | Null | NaN | Num int

text \<open>\<^verbatim>\<open>if (v)\<close>: a number is truthy unless it is 0 or NaN.\<close>

fun truthy :: "jsnum \<Rightarrow> bool" where
  "truthy (Num n) = (n \<noteq> 0)"
| "truthy _ = False"

text \<open>\<^verbatim>\<open>Math.min(a, b)\<close> with a numeric first argument: \<^verbatim>\<open>undefined\<close> converts to
  NaN, \<^verbatim>\<open>null\<close> to 0, and NaN is contagious.\<close>

fun Math_min :: "int \<Rightarrow> jsnum \<Rightarrow> jsnum" where
  "Math_min a (Num b) = Num (min a b)"
| "Math_min a Null = Num (min a 0)"
| "Math_min a _ = NaN"

text \<open>
  \<^verbatim>\<open>Array.prototype.slice(start, end)\<close>. A negative index counts from the end, both
  indices are clamped to the array; an \<^verbatim>\<open>undefined\<close> end means the length, and
  \<^verbatim>\<open>null\<close> and NaN convert to 0.
\<close>

definition rel_index :: "int \<Rightarrow> int \<Rightarrow> int" where
  "rel_index n i = (if i < 0 then max (n + i) 0 else min i n)"

fun end_index :: "int \<Rightarrow> jsnum \<Rightarrow> int" where
  "end_index n Undefined = n"
| "end_index n (Num e) = rel_index n e"
| "end_index n _ = rel_index n 0"

definition slice :: "'a list \<Rightarrow> int \<Rightarrow> jsnum \<Rightarrow> 'a list" where
  "slice xs start end' =
     (let n = int (length xs); k = rel_index n start; final = end_index n end'
      in take (nat (final - k)) (drop (nat k) xs))"

text \<open>
  \<^verbatim>\<open>Array.prototype.indexOf\<close>: the first index holding the searched value, or -1.
  The arrays of this development hold objects, which \<^verbatim>\<open>indexOf\<close> compares by
  identity (\<^verbatim>\<open>===\<close>); the element type \<open>'a\<close> stands for object references, and
  HOL's equality on it for \<^verbatim>\<open>===\<close>.
\<close>

fun indexOf_from :: "'a list \<Rightarrow> 'a \<Rightarrow> int \<Rightarrow> int" where
  "indexOf_from [] x i = - 1"
| "indexOf_from (y # ys) x i = (if y = x then i else indexOf_from ys x (i + 1))"

definition indexOf :: "'a list \<Rightarrow> 'a \<Rightarrow> int" where
  "indexOf xs x = indexOf_from xs x 0"

text \<open>\<^verbatim>\<open>xs.splice(start, deleteCount)\<close>: the array after the call.\<close>

definition splice :: "'a list \<Rightarrow> int \<Rightarrow> int \<Rightarrow> 'a list" where
  "splice xs start deleteCount =
     (let n = int (length xs); k = rel_index n start;
          d = min (max deleteCount 0) (n - k)
      in take (nat k) xs @ drop (nat (k + d)) xs)"

text \<open>\<^verbatim>\<open>xs.unshift(x)\<close>: the array after the call.\<close>

definition unshift :: "'a list \<Rightarrow> 'a \<Rightarrow> 'a list" where
  "unshift xs x = x # xs"

text \<open>The decimal text of a non-negative integer, as a template literal prints it.\<close>

fun str_of_nat :: "nat \<Rightarrow> string" where
  "str_of_nat n =
     (if n < 10 then [''0123456789'' ! n]
      else str_of_nat (n div 10) @ [''0123456789'' ! (n mod 10)])"

subsection \<open>The note model (\<^verbatim>\<open>note.model.ts\<close>)\<close>

record NoteBackendDict =
  bd_id :: string
  displayed_author_name :: string
  bd_title :: string
  bd_subtitle :: string
  bd_content :: string
  url_fragment :: string
  last_updated :: "string option"
  published_on :: "string option"

text \<open>The class \<^verbatim>\<open>NoteData\<close> of the note model; the fields are its private fields
  \<^verbatim>\<open>_id\<close>, \<^verbatim>\<open>_title\<close>, ... (an optional field is \<open>None\<close> when undefined).\<close>

record NoteData =
  id' :: string
  displayedAuthorName' :: string
  title' :: string
  subtitle' :: string
  content' :: string
  urlFragment' :: string
  lastUpdated' :: "string option"
  publishedOn' :: "string option"

definition createFromBackendDict :: "NoteBackendDict \<Rightarrow> NoteData" where
  "createFromBackendDict noteBackendDict =
     \<lparr> id' = bd_id noteBackendDict,
       displayedAuthorName' = displayed_author_name noteBackendDict,
       title' = bd_title noteBackendDict,
       subtitle' = bd_subtitle noteBackendDict,
       content' = bd_content noteBackendDict,
       urlFragment' = url_fragment noteBackendDict,
       lastUpdated' = last_updated noteBackendDict,
       publishedOn' = published_on noteBackendDict \<rparr>"

text \<open>
  Modelled from the spec: \<^verbatim>\<open>AppConstants.MIN_CHARS_IN_NOTE_TITLE\<close> and
  \<^verbatim>\<open>AppConstants.MAX_CHARS_IN_NOTE_TITLE\<close> live in \<^verbatim>\<open>app.constants\<close>, which is not
  among the sources. The specification gives the title range as 5 to 65, and the unit
  test of the model expects the messages to print 5 and 65.
\<close>

definition MIN_CHARS_IN_NOTE_TITLE :: nat where
  "MIN_CHARS_IN_NOTE_TITLE = 5"

definition MAX_CHARS_IN_NOTE_TITLE :: nat where
  "MAX_CHARS_IN_NOTE_TITLE = 65"

text \<open>
  \<^verbatim>\<open>NoteData.validate\<close>. The regular expression
  \<^verbatim>\<open>AppConstants.VALID_NOTE_TITLE_REGEX\<close> is not among the sources either; the
  function takes its test as the parameter \<open>validTitleRegex\<close>. The title issue is
  chosen by an \<^verbatim>\<open>else if\<close> chain, the content issue is independent of it.
\<close>

definition title_issues :: "(string \<Rightarrow> bool) \<Rightarrow> string \<Rightarrow> string list" where
  "title_issues validTitleRegex t =
     (if t = [] then [''Note title should not be empty.'']
      else if \<not> validTitleRegex t then [''Note title contains invalid characters.'']
      else if length t < MIN_CHARS_IN_NOTE_TITLE then
        [''Note title should not be less than '' @
           str_of_nat MIN_CHARS_IN_NOTE_TITLE @ '' characters.'']
      else if length t > MAX_CHARS_IN_NOTE_TITLE then
        [''Note title should not be more than '' @
           str_of_nat MAX_CHARS_IN_NOTE_TITLE @ '' characters.'']
      else [])"

definition content_issues :: "string \<Rightarrow> string list" where
  "content_issues c = (if c = [] then [''Note content should not be empty.''] else [])"

definition validate :: "(string \<Rightarrow> bool) \<Rightarrow> NoteData \<Rightarrow> string list" where
  "validate validTitleRegex note =
     title_issues validTitleRegex (title' note) @ content_issues (content' note)"

subsection \<open>The change-dict service (\<^verbatim>\<open>NoteUpdateService\<close>)\<close>

text \<open>
  \<^verbatim>\<open>NoteChangeDict\<close> is a JavaScript object with optional keys; it is a map from
  property names to strings. The service's state is its \<^verbatim>\<open>changeDict\<close>; each setter
  writes the note and the change-dict, so the model passes both.
\<close>

type_synonym NoteChangeDict = "string \<rightharpoonup> string"

definition setNoteTitle :: "string \<Rightarrow> NoteData \<times> NoteChangeDict \<Rightarrow> NoteData \<times> NoteChangeDict" where
  "setNoteTitle title = (\<lambda>(note, changeDict).
     (note\<lparr>title' := title\<rparr>, changeDict(''title'' \<mapsto> title)))"

definition setNoteSubtitle :: "string \<Rightarrow> NoteData \<times> NoteChangeDict \<Rightarrow> NoteData \<times> NoteChangeDict" where
  "setNoteSubtitle subtitle = (\<lambda>(note, changeDict).
     (note\<lparr>subtitle' := subtitle\<rparr>, changeDict(''subtitle'' \<mapsto> subtitle)))"

definition setNoteContent :: "string \<Rightarrow> NoteData \<times> NoteChangeDict \<Rightarrow> NoteData \<times> NoteChangeDict" where
  "setNoteContent content = (\<lambda>(note, changeDict).
     (note\<lparr>content' := content\<rparr>, changeDict(''content'' \<mapsto> content)))"

definition setNoteChangeDictToDefault :: "NoteData \<times> NoteChangeDict \<Rightarrow> NoteData \<times> NoteChangeDict" where
  "setNoteChangeDictToDefault = (\<lambda>(note, changeDict). (note, Map.empty))"

text \<open>A call of one of the three setters, and a sequence of such calls.\<close>

datatype mutation = SetNoteTitle string | SetNoteSubtitle string | SetNoteContent string

fun mutate :: "mutation \<Rightarrow> NoteData \<times> NoteChangeDict \<Rightarrow> NoteData \<times> NoteChangeDict" where
  "mutate (SetNoteTitle v) = setNoteTitle v"
| "mutate (SetNoteSubtitle v) = setNoteSubtitle v"
| "mutate (SetNoteContent v) = setNoteContent v"

fun mutate_all :: "mutation list \<Rightarrow> NoteData \<times> NoteChangeDict \<Rightarrow> NoteData \<times> NoteChangeDict" where
  "mutate_all [] st = st"
| "mutate_all (m # ms) st = mutate_all ms (mutate m st)"

text \<open>The property a mutation writes, and the value it writes.\<close>

fun field_of :: "mutation \<Rightarrow> string" where
  "field_of (SetNoteTitle v) = ''title''"
| "field_of (SetNoteSubtitle v) = ''subtitle''"
| "field_of (SetNoteContent v) = ''content''"

fun value_of :: "mutation \<Rightarrow> string" where
  "value_of (SetNoteTitle v) = v"
| "value_of (SetNoteSubtitle v) = v"
| "value_of (SetNoteContent v) = v"

text \<open>The value the last mutation of property \<open>f\<close> in \<open>ms\<close> wrote, if there is one.\<close>

fun last_set :: "mutation list \<Rightarrow> string \<Rightarrow> string option" where
  "last_set [] f = None"
| "last_set (m # ms) f =
     (case last_set ms f of
        Some v \<Rightarrow> Some v
      | None \<Rightarrow> (if field_of m = f then Some (value_of m) else None))"

subsection \<open>Unpublishing on the dashboard (\<^verbatim>\<open>NotesPageComponent\<close>)\<close>

text \<open>
  The interface \<^verbatim>\<open>NoteData\<close> of \<^verbatim>\<open>note-page-backend-api.service.ts\<close>, the
  dashboard's data (named apart from the model class above). The two arrays hold
  \<^verbatim>\<open>NoteSummary\<close> objects, which the component never looks into.
\<close>

record 'n NotesPageNoteData =
  numOfPublishedNotes :: int
  numOfDraftNotes :: int
  publishedNoteSummaryDicts :: "'n list"
  draftNoteSummaryDicts :: "'n list"

definition unpublishedNotesPost :: "'n \<Rightarrow> 'n NotesPageNoteData \<Rightarrow> 'n NotesPageNoteData" where
  "unpublishedNotesPost noteSummary noteData =
     (let summaryDicts = publishedNoteSummaryDicts noteData;
          index = indexOf summaryDicts noteSummary;
          summaryDicts' = (if index > - 1 then splice summaryDicts index 1 else summaryDicts)
      in noteData
           \<lparr> publishedNoteSummaryDicts := summaryDicts',
             draftNoteSummaryDicts := unshift (draftNoteSummaryDicts noteData) noteSummary,
             numOfDraftNotes := numOfDraftNotes noteData + 1,
             numOfPublishedNotes := numOfPublishedNotes noteData - 1 \<rparr>)"

subsection \<open>The search service (\<^verbatim>\<open>NotePostSearchService\<close>)\<close>

text \<open>
  The data a search fetch resolves with, and the error response it rejects with
  (\<^verbatim>\<open>errorResponse.status\<close> and \<^verbatim>\<open>errorResponse.error.error\<close>).
\<close>

record 'n SearchResponseData =
  searchOffset :: jsnum
  noteSummariesList :: "'n list"

record ErrorResponse =
  status :: int
  error :: string

text \<open>
  The URL query the service builds: \<^verbatim>\<open>'?q=' + encodeURIComponent(query)\<close>, followed by
  \<^verbatim>\<open>'&offset=' + offset\<close> when there is one. The model keeps the two parts instead of
  the encoded text; the query is \<open>None\<close> when \<^verbatim>\<open>_lastQuery\<close> is still undefined.
\<close>

datatype SearchUrl = SearchUrl "string option" "int option"

fun offset_param :: "jsnum \<Rightarrow> int option" where
  "offset_param (Num n) = (if n \<noteq> 0 then Some n else None)"
| "offset_param _ = None"

text \<open>
  The service is asynchronous. A call of \<^verbatim>\<open>fetchNoteSearchResultAsync\<close> returns a
  promise, and the service attaches its handlers with \<^verbatim>\<open>.then\<close>; the model keeps the
  promises that are not settled yet, in the order of their creation, each with the URL
  and the handlers attached. Callbacks are opaque to the service: they are tokens of a
  type \<open>'c\<close>, an optional callback is an \<open>option\<close>, and every operation returns, next
  to the new state, the list of the calls it made to the outside, in order.
\<close>

datatype 'c then_handlers =
    ExecuteSearchQueryThen string "'c option"
  | LoadMoreDataThen "'c option"

datatype ('c, 'n) call =
    SuccessCallback 'c
  | ErrorCallback 'c string
  | InitialSearchResultsLoaded "'n SearchResponseData"
  | LoadMoreSuccessCallback 'c "'n SearchResponseData"
  | FailureCallback 'c bool

record 'c NotePostSearchService =
  lastQuery' :: "string option"
  searchOffset' :: jsnum
  isCurrentlyFetchingResults' :: bool
  numSearchesInProgress :: int
  fetches :: "(SearchUrl \<times> 'c then_handlers) list"

definition new_service :: "'c NotePostSearchService" where
  "new_service =
     \<lparr> lastQuery' = None, searchOffset' = Undefined, isCurrentlyFetchingResults' = False,
       numSearchesInProgress = 0, fetches = [] \<rparr>"

definition hasReachedLastPage :: "'c NotePostSearchService \<Rightarrow> bool" where
  "hasReachedLastPage s = (searchOffset' s = Null)"

definition isSearchInProgress :: "'c NotePostSearchService \<Rightarrow> bool" where
  "isSearchInProgress s = (numSearchesInProgress s > 0)"

definition call_if :: "'c option \<Rightarrow> ('c \<Rightarrow> ('c, 'n) call) \<Rightarrow> ('c, 'n) call list" where
  "call_if callback f = (case callback of None \<Rightarrow> [] | Some c \<Rightarrow> [f c])"

definition executeSearchQuery ::
  "string \<Rightarrow> 'c option \<Rightarrow> 'c option \<Rightarrow> 'c NotePostSearchService
     \<Rightarrow> 'c NotePostSearchService \<times> ('c, 'n) call list" where
  "executeSearchQuery searchQuery successCallback errorCallback s =
     (s\<lparr> isCurrentlyFetchingResults' := True,
         numSearchesInProgress := numSearchesInProgress s + 1,
         fetches := fetches s @
           [(SearchUrl (Some searchQuery) None,
             ExecuteSearchQueryThen searchQuery errorCallback)] \<rparr>,
      call_if successCallback SuccessCallback)"

definition loadMoreData ::
  "'c option \<Rightarrow> 'c option \<Rightarrow> 'c NotePostSearchService
     \<Rightarrow> 'c NotePostSearchService \<times> ('c, 'n) call list" where
  "loadMoreData successCallback failureCallback s =
     (if isCurrentlyFetchingResults' s \<or> hasReachedLastPage s then
        (s, call_if failureCallback (\<lambda>c. FailureCallback c (hasReachedLastPage s)))
      else
        (s\<lparr> isCurrentlyFetchingResults' := True,
            fetches := fetches s @
              [(SearchUrl (lastQuery' s) (offset_param (searchOffset' s)),
                LoadMoreDataThen successCallback)] \<rparr>,
         []))"

text \<open>
  The handlers. \<^verbatim>\<open>executeSearchQuery\<close> attaches a fulfilment and a rejection handler;
  \<^verbatim>\<open>loadMoreData\<close> attaches a fulfilment handler only, so a rejection of its promise
  runs no code of the service. The subscribers of the event emitter run inside
  \<^verbatim>\<open>emit\<close>, before the flag is cleared; they do not read the service (see the
  component below), so the model lists the emission among the calls.
\<close>

fun fulfilled ::
  "'c then_handlers \<Rightarrow> 'n SearchResponseData \<Rightarrow> 'c NotePostSearchService
     \<Rightarrow> 'c NotePostSearchService \<times> ('c, 'n) call list" where
  "fulfilled (ExecuteSearchQueryThen searchQuery errorCallback) response s =
     (s\<lparr> lastQuery' := Some searchQuery,
         searchOffset' := searchOffset response,
         numSearchesInProgress := numSearchesInProgress s - 1,
         isCurrentlyFetchingResults' := False \<rparr>,
      [InitialSearchResultsLoaded response])"
| "fulfilled (LoadMoreDataThen successCallback) data s =
     (s\<lparr> searchOffset' := searchOffset data,
         isCurrentlyFetchingResults' := False \<rparr>,
      call_if successCallback (\<lambda>c. LoadMoreSuccessCallback c data))"

fun rejected ::
  "'c then_handlers \<Rightarrow> ErrorResponse \<Rightarrow> 'c NotePostSearchService
     \<Rightarrow> 'c NotePostSearchService \<times> ('c, 'n) call list" where
  "rejected (ExecuteSearchQueryThen searchQuery errorCallback) e s =
     (s\<lparr> numSearchesInProgress := numSearchesInProgress s - 1 \<rparr>,
      call_if errorCallback (\<lambda>c. ErrorCallback c (error e)))"
| "rejected (LoadMoreDataThen successCallback) e s = (s, [])"

text \<open>Settling the \<open>i\<close>-th outstanding fetch removes it and runs its handler.\<close>

definition remove_nth :: "nat \<Rightarrow> 'a list \<Rightarrow> 'a list" where
  "remove_nth i xs = take i xs @ drop (Suc i) xs"

definition resolves ::
  "nat \<Rightarrow> 'n SearchResponseData \<Rightarrow> 'c NotePostSearchService
     \<Rightarrow> 'c NotePostSearchService \<times> ('c, 'n) call list" where
  "resolves i response s =
     (if i < length (fetches s)
      then fulfilled (snd (fetches s ! i)) response (s\<lparr>fetches := remove_nth i (fetches s)\<rparr>)
      else (s, []))"

definition rejects ::
  "nat \<Rightarrow> ErrorResponse \<Rightarrow> 'c NotePostSearchService
     \<Rightarrow> 'c NotePostSearchService \<times> ('c, 'n) call list" where
  "rejects i e s =
     (if i < length (fetches s)
      then rejected (snd (fetches s ! i)) e (s\<lparr>fetches := remove_nth i (fetches s)\<rparr>)
      else (s, []))"

text \<open>
  What can happen to one instance of the service: a call of one of its two operations
  or the settling of one of its outstanding fetches. A run collects the calls made.
\<close>

datatype ('c, 'n) service_event =
    ExecuteSearchQuery string "'c option" "'c option"
  | LoadMoreData "'c option" "'c option"
  | Resolves nat "'n SearchResponseData"
  | Rejects nat ErrorResponse

fun service_step ::
  "('c, 'n) service_event \<Rightarrow> 'c NotePostSearchService
     \<Rightarrow> 'c NotePostSearchService \<times> ('c, 'n) call list" where
  "service_step (ExecuteSearchQuery searchQuery successCallback errorCallback) s =
     executeSearchQuery searchQuery successCallback errorCallback s"
| "service_step (LoadMoreData successCallback failureCallback) s =
     loadMoreData successCallback failureCallback s"
| "service_step (Resolves i response) s = resolves i response s"
| "service_step (Rejects i e) s = rejects i e s"

fun service_run ::
  "('c, 'n) service_event list \<Rightarrow> 'c NotePostSearchService
     \<Rightarrow> 'c NotePostSearchService \<times> ('c, 'n) call list" where
  "service_run [] s = (s, [])"
| "service_run (ev # evs) s =
     (case service_step ev s of
        (s', out) \<Rightarrow> (case service_run evs s' of (s'', out') \<Rightarrow> (s'', out @ out')))"

fun is_load_more_fetch :: "SearchUrl \<times> 'c then_handlers \<Rightarrow> bool" where
  "is_load_more_fetch (url, LoadMoreDataThen successCallback) = True"
| "is_load_more_fetch (url, ExecuteSearchQueryThen searchQuery errorCallback) = False"

fun is_resolves :: "('c, 'n) service_event \<Rightarrow> bool" where
  "is_resolves (Resolves i response) = True"
| "is_resolves _ = False"

subsection \<open>The home page component (\<^verbatim>\<open>NoteHomePageComponent\<close>)\<close>

record 'n NoteHomePageData =
  hp_numOfPublishedNotes :: int
  noteSummaryDicts :: "'n list"

text \<open>
  The handlers the component attaches to a promise of
  \<^verbatim>\<open>fetchNoteHomePageDataAsync\<close>: those of \<^verbatim>\<open>loadInitialNoteHomePageData\<close> or those of
  \<^verbatim>\<open>loadMoreNoteSummaries\<close>.
\<close>

datatype home_then = LoadInitialThen | LoadMoreNoteSummariesThen

text \<open>
  The fields of the component that its paging logic reads or writes. The result buffer
  is \<open>noteSummaries\<close>, the page shown is \<open>noteSummariesToShow\<close>. The two page sizes
  are copied from \<^verbatim>\<open>NoteHomePageConstants\<close> (not among the sources) by
  \<^verbatim>\<open>ngOnInit\<close>. \<open>homeFetches\<close> holds the unsettled promises of
  \<^verbatim>\<open>fetchNoteHomePageDataAsync\<close> with the offset asked for, \<open>warnings\<close> the
  messages given to \<^verbatim>\<open>AlertsService.addWarning\<close>, and \<open>loadingScreenShown\<close> the
  state of the \<^verbatim>\<open>LoaderService\<close>.
\<close>

record 'n NoteHomePageComponent =
  MAX_NUM_CARDS_TO_DISPLAY_ON_NOTE_HOMEPAGE :: int
  MAX_NUM_CARDS_TO_DISPLAY_ON_NOTE_HOMEPAGE_SEARCH :: int
  lastPostOnPageNum :: jsnum
  totalNotes :: jsnum
  noResultsFound :: "bool option"
  searchQuery :: string
  showNoteCardsLoadingScreen :: bool
  noteSummaries :: "'n list"
  noteSummariesToShow :: "'n list"
  page :: int
  searchPageIsActive :: bool
  firstPostOnPageNum :: int
  hp_searchOffset :: jsnum
  homeFetches :: "(int \<times> home_then) list"
  warnings :: "string list"
  loadingScreenShown :: bool

definition addWarning :: "string \<Rightarrow> 'n NoteHomePageComponent \<Rightarrow> 'n NoteHomePageComponent" where
  "addWarning message c = c\<lparr>warnings := warnings c @ [message]\<rparr>"

definition showLoadingScreen :: "'n NoteHomePageComponent \<Rightarrow> 'n NoteHomePageComponent" where
  "showLoadingScreen c = c\<lparr>loadingScreenShown := True\<rparr>"

definition hideLoadingScreen :: "'n NoteHomePageComponent \<Rightarrow> 'n NoteHomePageComponent" where
  "hideLoadingScreen c = c\<lparr>loadingScreenShown := False\<rparr>"

definition calculateFirstPostOnPageNum ::
  "int \<Rightarrow> int \<Rightarrow> 'n NoteHomePageComponent \<Rightarrow> 'n NoteHomePageComponent" where
  "calculateFirstPostOnPageNum pageNum pageSize c =
     c\<lparr>firstPostOnPageNum := (pageNum - 1) * pageSize + 1\<rparr>"

definition calculateLastPostOnPageNum ::
  "int \<Rightarrow> int \<Rightarrow> 'n NoteHomePageComponent \<Rightarrow> 'n NoteHomePageComponent" where
  "calculateLastPostOnPageNum pageNum pageSize c =
     c\<lparr>lastPostOnPageNum := Math_min (pageNum * pageSize) (totalNotes c)\<rparr>"

definition selectNoteSummariesToShow :: "'n NoteHomePageComponent \<Rightarrow> 'n NoteHomePageComponent" where
  "selectNoteSummariesToShow c =
     c\<lparr>noteSummariesToShow :=
         slice (noteSummaries c) (firstPostOnPageNum c - 1) (lastPostOnPageNum c)\<rparr>"

definition loadSearchResultsPageData ::
  "'n SearchResponseData \<Rightarrow> 'n NoteHomePageComponent \<Rightarrow> 'n NoteHomePageComponent" where
  "loadSearchResultsPageData data c =
     (let c1 = c\<lparr> noteSummaries := noteSummaries c @ noteSummariesList data,
                  hp_searchOffset := searchOffset data \<rparr>;
          c2 = c1\<lparr>totalNotes :=
                 (if truthy (hp_searchOffset c1)
                  then Num (int (length (noteSummaries c1)) + 1)
                  else Num (int (length (noteSummaries c1))))\<rparr>;
          c3 = calculateLastPostOnPageNum (page c2)
                 (MAX_NUM_CARDS_TO_DISPLAY_ON_NOTE_HOMEPAGE_SEARCH c2) c2;
          c4 = selectNoteSummariesToShow c3
      in hideLoadingScreen (c4\<lparr>showNoteCardsLoadingScreen := False\<rparr>))"

text \<open>The subscriber of \<^verbatim>\<open>onInitialSearchResultsLoaded\<close> that \<^verbatim>\<open>ngOnInit\<close> registers.\<close>

definition onInitialSearchResultsLoaded ::
  "'n SearchResponseData \<Rightarrow> 'n NoteHomePageComponent \<Rightarrow> 'n NoteHomePageComponent" where
  "onInitialSearchResultsLoaded response c =
     (let c1 = c\<lparr>noteSummaries := [], page := 1, firstPostOnPageNum := 1\<rparr>;
          c2 = (if length (noteSummariesList response) > 0
                then loadSearchResultsPageData response (c1\<lparr>noResultsFound := Some False\<rparr>)
                else c1\<lparr>noResultsFound := Some True\<rparr>)
      in hideLoadingScreen c2)"

text \<open>
  \<^verbatim>\<open>loadInitialNoteHomePageData\<close> and \<^verbatim>\<open>loadMoreNoteSummaries\<close>: each issues one fetch;
  the handlers follow. \<^verbatim>\<open>AppConstants.FATAL_ERROR_CODES\<close> is not among the sources and
  is the parameter \<open>fatal\<close>.
\<close>

definition loadInitialNoteHomePageData :: "'n NoteHomePageComponent \<Rightarrow> 'n NoteHomePageComponent" where
  "loadInitialNoteHomePageData c = c\<lparr>homeFetches := homeFetches c @ [(0, LoadInitialThen)]\<rparr>"

definition loadMoreNoteSummaries :: "int \<Rightarrow> 'n NoteHomePageComponent \<Rightarrow> 'n NoteHomePageComponent" where
  "loadMoreNoteSummaries offset c =
     c\<lparr>homeFetches := homeFetches c @ [(offset, LoadMoreNoteSummariesThen)]\<rparr>"

fun home_fulfilled ::
  "home_then \<Rightarrow> 'n NoteHomePageData \<Rightarrow> 'n NoteHomePageComponent \<Rightarrow> 'n NoteHomePageComponent" where
  "home_fulfilled LoadInitialThen data c =
     hideLoadingScreen
       (if hp_numOfPublishedNotes data \<noteq> 0 then
          (let c1 = c\<lparr> totalNotes := Num (hp_numOfPublishedNotes data),
                       noResultsFound := Some False,
                       noteSummaries := noteSummaryDicts data \<rparr>;
               c2 = c1\<lparr>noteSummariesToShow := noteSummaries c1\<rparr>
           in calculateLastPostOnPageNum (page c2)
                (MAX_NUM_CARDS_TO_DISPLAY_ON_NOTE_HOMEPAGE c2) c2)
        else c\<lparr>noResultsFound := Some True\<rparr>)"
| "home_fulfilled LoadMoreNoteSummariesThen data c =
     (let c1 = c\<lparr>noteSummaries := noteSummaries c @ noteSummaryDicts data\<rparr>;
          c2 = selectNoteSummariesToShow c1;
          c3 = calculateLastPostOnPageNum (page c2)
                 (MAX_NUM_CARDS_TO_DISPLAY_ON_NOTE_HOMEPAGE c2) c2
      in c3\<lparr>showNoteCardsLoadingScreen := False\<rparr>)"

definition home_rejected ::
  "int list \<Rightarrow> home_then \<Rightarrow> ErrorResponse \<Rightarrow> 'n NoteHomePageComponent
     \<Rightarrow> 'n NoteHomePageComponent" where
  "home_rejected fatal h errorResponse c =
     (if indexOf fatal (status errorResponse) \<noteq> - 1
      then addWarning (''Failed to get note home page data.Error: '' @ error errorResponse) c
      else c)"

subsection \<open>The page: the component wired to the service\<close>

text \<open>
  The closures the component passes to the service: the two of
  \<^verbatim>\<open>onSearchQueryChangeExec\<close> (the success callback rewrites the browser's URL and touches
  neither the component nor the service; the error callback adds a warning) and the two
  of \<^verbatim>\<open>loadPage\<close>. On the search page the success callback pushes the new URL to the
  history; elsewhere it assigns \<^verbatim>\<open>location.href\<close> and the browser leaves the page, so
  the model follows the page while it stays on the search URL. \<open>deliver\<close> runs the body of the closure, or of the subscriber, that
  a call of the service reaches. None of the bodies calls or reads the service, so
  running them after the service's operation has returned gives the state the source
  reaches.
\<close>

datatype cb = UpdateUrl | WarnSearchFailed | ShowMoreResults | WarnEndOfResults

fun deliver :: "(cb, 'n) call \<Rightarrow> 'n NoteHomePageComponent \<Rightarrow> 'n NoteHomePageComponent" where
  "deliver (SuccessCallback UpdateUrl) c = c"
| "deliver (ErrorCallback WarnSearchFailed errorResponse) c =
     addWarning (''Unable to fetch search results.Error: '' @ errorResponse) c"
| "deliver (InitialSearchResultsLoaded response) c = onInitialSearchResultsLoaded response c"
| "deliver (LoadMoreSuccessCallback ShowMoreResults data) c = loadSearchResultsPageData data c"
| "deliver (FailureCallback WarnEndOfResults isCurrentlyFetchingResults) c =
     addWarning ''No more search resutls found. End of search results.'' c"
| "deliver _ c = c"

fun deliver_all ::
  "(cb, 'n) call list \<Rightarrow> 'n NoteHomePageComponent \<Rightarrow> 'n NoteHomePageComponent" where
  "deliver_all [] c = c"
| "deliver_all (x # xs) c = deliver_all xs (deliver x c)"

record 'n Page =
  service :: "cb NotePostSearchService"
  component :: "'n NoteHomePageComponent"

definition with_service ::
  "'n NoteHomePageComponent \<Rightarrow> cb NotePostSearchService \<times> (cb, 'n) call list \<Rightarrow> 'n Page" where
  "with_service c = (\<lambda>(s, out). \<lparr> service = s, component = deliver_all out c \<rparr>)"

definition onSearchQueryChangeExec :: "'n Page \<Rightarrow> 'n Page" where
  "onSearchQueryChangeExec w =
     (let c = showLoadingScreen (component w)
      in with_service c
           (executeSearchQuery (searchQuery c) (Some UpdateUrl) (Some WarnSearchFailed)
              (service w)))"

definition loadPage :: "'n Page \<Rightarrow> 'n Page" where
  "loadPage w =
     (let c = component w in
      if int (length (noteSummaries c)) < firstPostOnPageNum c then
        (let c1 = c\<lparr>showNoteCardsLoadingScreen := True\<rparr> in
         if \<not> searchPageIsActive c1 then
           w\<lparr>component := loadMoreNoteSummaries (firstPostOnPageNum c1 - 1) c1\<rparr>
         else
           with_service c1
             (loadMoreData (Some ShowMoreResults) (Some WarnEndOfResults) (service w)))
      else w\<lparr>component := selectNoteSummariesToShow c\<rparr>)"

text \<open>\<^verbatim>\<open>onPageChange(page = this.page)\<close>: the argument is optional.\<close>

definition onPageChange :: "int option \<Rightarrow> 'n Page \<Rightarrow> 'n Page" where
  "onPageChange page_arg w =
     (let c = component w;
          p = (case page_arg of None \<Rightarrow> page c | Some p \<Rightarrow> p);
          pageSize = (if \<not> searchPageIsActive c
                      then MAX_NUM_CARDS_TO_DISPLAY_ON_NOTE_HOMEPAGE c
                      else MAX_NUM_CARDS_TO_DISPLAY_ON_NOTE_HOMEPAGE_SEARCH c)
      in loadPage
           (w\<lparr>component :=
                calculateLastPostOnPageNum p pageSize
                  (calculateFirstPostOnPageNum p pageSize c)\<rparr>))"

text \<open>
  What can happen to the page once \<^verbatim>\<open>ngOnInit\<close> has run: the debounced search box
  delivers a new query, the paginator sets the page and reports the change, the initial
  listing is requested, or a fetch settles.
\<close>

datatype 'n page_event =
    SearchQueryChanged string
  | SetPage int
  | OnPageChange "int option"
  | LoadInitialNoteHomePageData
  | SearchFetchResolves nat "'n SearchResponseData"
  | SearchFetchRejects nat ErrorResponse
  | HomeFetchResolves nat "'n NoteHomePageData"
  | HomeFetchRejects nat ErrorResponse

fun page_step :: "int list \<Rightarrow> 'n page_event \<Rightarrow> 'n Page \<Rightarrow> 'n Page" where
  "page_step fatal (SearchQueryChanged model) w =
     onSearchQueryChangeExec (w\<lparr>component := (component w)\<lparr>searchQuery := model\<rparr>\<rparr>)"
| "page_step fatal (SetPage p) w = w\<lparr>component := (component w)\<lparr>page := p\<rparr>\<rparr>"
| "page_step fatal (OnPageChange page_arg) w = onPageChange page_arg w"
| "page_step fatal LoadInitialNoteHomePageData w =
     w\<lparr>component := loadInitialNoteHomePageData (component w)\<rparr>"
| "page_step fatal (SearchFetchResolves i response) w =
     with_service (component w) (resolves i response (service w))"
| "page_step fatal (SearchFetchRejects i e) w =
     with_service (component w) (rejects i e (service w))"
| "page_step fatal (HomeFetchResolves i data) w =
     (let c = component w in
      if i < length (homeFetches c)
      then w\<lparr>component :=
               home_fulfilled (snd (homeFetches c ! i)) data
                 (c\<lparr>homeFetches := remove_nth i (homeFetches c)\<rparr>)\<rparr>
      else w)"
| "page_step fatal (HomeFetchRejects i e) w =
     (let c = component w in
      if i < length (homeFetches c)
      then w\<lparr>component :=
               home_rejected fatal (snd (homeFetches c ! i)) e
                 (c\<lparr>homeFetches := remove_nth i (homeFetches c)\<rparr>)\<rparr>
      else w)"

fun page_run :: "int list \<Rightarrow> 'n page_event list \<Rightarrow> 'n Page \<Rightarrow> 'n Page" where
  "page_run fatal [] w = w"
| "page_run fatal (ev # evs) w = page_run fatal evs (page_step fatal ev w)"

text \<open>The number of HTTP requests in flight on the page.\<close>

definition in_flight :: "'n Page \<Rightarrow> nat" where
  "in_flight w = length (fetches (service w)) + length (homeFetches (component w))"

subsection \<open>Sample data\<close>

text \<open>The note of the model's unit test.\<close>

definition sampleNote :: NoteData where
  "sampleNote =
     \<lparr> id' = ''sampleId'', displayedAuthorName' = ''testUsername'',
       title' = ''sampleTitle'', subtitle' = ''samplesubTitle'',
       content' = ''<p>Hello</p>'', urlFragment' = ''sampleUrl'',
       lastUpdated' = Some ''3454354354'', publishedOn' = Some ''3454354354'' \<rparr>"

text \<open>
  A title pattern that only forbids the hash sign, and the sample note with a title of
  two characters that contains one.
\<close>

definition no_hash :: "string \<Rightarrow> bool" where
  "no_hash t = (CHR ''#'' \<notin> set t)"

definition short_invalid_note :: NoteData where
  "short_invalid_note = sampleNote\<lparr>title' := ''a#''\<rparr>"

text \<open>
  A run of the service in which a query is superseded while a further page of it is
  still being fetched: the first page of query a arrives with offset 5, more data is
  asked for, query b is submitted and its first page arrives with a null offset.
  \<open>stale_response\<close> is then the late answer to the fetch for query a.
\<close>

definition stale_events :: "(cb, nat) service_event list" where
  "stale_events =
     [ExecuteSearchQuery ''a'' None None,
      Resolves 0 \<lparr>searchOffset = Num 5, noteSummariesList = [1, 2]\<rparr>,
      LoadMoreData (Some ShowMoreResults) (Some WarnEndOfResults),
      ExecuteSearchQuery ''b'' None None,
      Resolves 1 \<lparr>searchOffset = Null, noteSummariesList = [10, 11]\<rparr>]"

definition stale_response :: "(cb, nat) service_event" where
  "stale_response = Resolves 0 \<lparr>searchOffset = Num 7, noteSummariesList = [3, 4]\<rparr>"

text \<open>A run that ends in the terminal state: the only page of query a has arrived.\<close>

definition terminal_events :: "(cb, nat) service_event list" where
  "terminal_events =
     [ExecuteSearchQuery ''a'' None None,
      Resolves 0 \<lparr>searchOffset = Null, noteSummariesList = [1, 2]\<rparr>]"

text \<open>A component showing the first five of seven notes.\<close>

definition seven_notes :: "nat NoteHomePageComponent" where
  "seven_notes =
     \<lparr> MAX_NUM_CARDS_TO_DISPLAY_ON_NOTE_HOMEPAGE = 5,
       MAX_NUM_CARDS_TO_DISPLAY_ON_NOTE_HOMEPAGE_SEARCH = 5,
       lastPostOnPageNum = Num 5, totalNotes = Num 7, noResultsFound = Some False,
       searchQuery = [], showNoteCardsLoadingScreen = False,
       noteSummaries = [100, 101, 102, 103, 104, 105, 106],
       noteSummariesToShow = [100, 101, 102, 103, 104], page = 1,
       searchPageIsActive = False, firstPostOnPageNum = 1, hp_searchOffset = Num 0,
       homeFetches = [], warnings = [], loadingScreenShown = False \<rparr>"

text \<open>
  The search page right after \<^verbatim>\<open>ngOnInit\<close>, with two cards per page, and runs of it:
  a query is being sent; its first page has arrived; the second page is asked for; the
  query is superseded as in \<open>stale_events\<close>; the only page has arrived and the second
  is asked for.
\<close>

definition search_page :: "nat Page" where
  "search_page =
     \<lparr> service = new_service,
       component =
         \<lparr> MAX_NUM_CARDS_TO_DISPLAY_ON_NOTE_HOMEPAGE = 2,
           MAX_NUM_CARDS_TO_DISPLAY_ON_NOTE_HOMEPAGE_SEARCH = 2,
           lastPostOnPageNum = Undefined, totalNotes = Undefined, noResultsFound = None,
           searchQuery = [], showNoteCardsLoadingScreen = False,
           noteSummaries = [], noteSummariesToShow = [], page = 1,
           searchPageIsActive = True, firstPostOnPageNum = 1, hp_searchOffset = Num 0,
           homeFetches = [], warnings = [], loadingScreenShown = True \<rparr> \<rparr>"


definition first_page_loaded :: "nat Page" where
  "first_page_loaded =
     page_run []
       [SearchQueryChanged ''a'',
        SearchFetchResolves 0 \<lparr>searchOffset = Num 5, noteSummariesList = [1, 2]\<rparr>]
       search_page"

definition second_page_wanted :: "nat Page" where
  "second_page_wanted =
     first_page_loaded
       \<lparr>component := calculateFirstPostOnPageNum 2 2 (component first_page_loaded)\<rparr>"



definition last_page_events :: "nat page_event list" where
  "last_page_events =
     [SearchQueryChanged ''a'',
      SearchFetchResolves 0 \<lparr>searchOffset = Null, noteSummariesList = [1, 2]\<rparr>,
      SetPage 2,
      OnPageChange None]"

section \<open>Properties\<close>

subsection \<open>Validation of a note\<close>

lemma str_of_nat_5: "str_of_nat 5 = ''5''"
  by simp

lemma str_of_nat_65: "str_of_nat 65 = ''65''"
  by simp

lemma title_issues_cases:
  "title_issues R t =
     (if t = [] then [''Note title should not be empty.'']
      else if \<not> R t then [''Note title contains invalid characters.'']
      else if length t < 5 then [''Note title should not be less than 5 characters.'']
      else if length t > 65 then [''Note title should not be more than 65 characters.'']
      else [])"
  unfolding title_issues_def MIN_CHARS_IN_NOTE_TITLE_def MAX_CHARS_IN_NOTE_TITLE_def
    str_of_nat_5 str_of_nat_65
  by simp

text \<open>
  C7, as the claim states it, fails for a title that is outside the length range and
  also fails the pattern: the title of \<open>short_invalid_note\<close> has two characters,
  and the only issue is the one for invalid characters; the message for a short title
  is not in the list.
\<close>

theorem short_invalid_title_counterexample:
  "length (title' short_invalid_note) < 5
   \<and> validate no_hash short_invalid_note = [''Note title contains invalid characters.'']
   \<and> ''Note title should not be less than 5 characters.''
        \<notin> set (validate no_hash short_invalid_note)"
  by (simp add: short_invalid_note_def sampleNote_def no_hash_def validate_def
      title_issues_cases content_issues_def)

text \<open>
  C7, amended. A title of 5 to 65 characters that passes the title pattern, on a note
  with content, gives no issue. Every other title gives exactly one title message,
  followed by the issue of the content if there is one, and the message is chosen in
  this order: the message for an empty title if the title is empty; else the message
  for invalid characters if the title fails the pattern, whatever its length, and then
  neither length message is in the list; else the message for a short title if it is
  shorter than 5; else the message for a long title if it is longer than 65.
\<close>

theorem validate_title_messages:
  "(5 \<le> length (title' note) \<and> length (title' note) \<le> 65 \<and> validTitleRegex (title' note)
      \<and> content' note \<noteq> [] \<longrightarrow> validate validTitleRegex note = [])
   \<and> (title' note = [] \<longrightarrow>
        validate validTitleRegex note =
          ''Note title should not be empty.'' # content_issues (content' note))
   \<and> (title' note \<noteq> [] \<and> \<not> validTitleRegex (title' note) \<longrightarrow>
        validate validTitleRegex note =
          ''Note title contains invalid characters.'' # content_issues (content' note) \<and>
        ''Note title should not be less than 5 characters.''
          \<notin> set (validate validTitleRegex note) \<and>
        ''Note title should not be more than 65 characters.''
          \<notin> set (validate validTitleRegex note))
   \<and> (title' note \<noteq> [] \<and> validTitleRegex (title' note) \<and> length (title' note) < 5 \<longrightarrow>
        validate validTitleRegex note =
          ''Note title should not be less than 5 characters.''
            # content_issues (content' note))
   \<and> (validTitleRegex (title' note) \<and> length (title' note) > 65 \<longrightarrow>
        validate validTitleRegex note =
          ''Note title should not be more than 65 characters.''
            # content_issues (content' note))
   \<and> (title' note = [] \<longrightarrow>
        ''Note title should not be empty.'' \<in> set (validate validTitleRegex note))
   \<and> (title' note \<noteq> [] \<and> \<not> validTitleRegex (title' note) \<longrightarrow>
        ''Note title contains invalid characters.'' \<in> set (validate validTitleRegex note))
   \<and> (title' note \<noteq> [] \<and> validTitleRegex (title' note) \<and> length (title' note) < 5 \<longrightarrow>
        ''Note title should not be less than 5 characters.''
          \<in> set (validate validTitleRegex note))
   \<and> (validTitleRegex (title' note) \<and> length (title' note) > 65 \<longrightarrow>
        ''Note title should not be more than 65 characters.''
          \<in> set (validate validTitleRegex note))"
  unfolding validate_def title_issues_cases content_issues_def
  by auto

text \<open>
  The titles of the unit test, with a pattern that only forbids the hash sign: the
  sample note is valid, a title with a hash sign gives the message for invalid
  characters alone, and a title of two letters the message for a short title.
\<close>

theorem validate_title_messages_witness:
  "validate (\<lambda>t. CHR ''#'' \<notin> set t) sampleNote = []
   \<and> validate (\<lambda>t. CHR ''#'' \<notin> set t) (sampleNote\<lparr>title' := ''invalid chars#''\<rparr>) =
       [''Note title contains invalid characters.'']
   \<and> validate (\<lambda>t. CHR ''#'' \<notin> set t) (sampleNote\<lparr>title' := ''aa''\<rparr>) =
       [''Note title should not be less than 5 characters.'']"
  using validate_title_messages [of sampleNote "\<lambda>t. CHR ''#'' \<notin> set t"]
    validate_title_messages
      [of "sampleNote\<lparr>title' := ''invalid chars#''\<rparr>" "\<lambda>t. CHR ''#'' \<notin> set t"]
    validate_title_messages [of "sampleNote\<lparr>title' := ''aa''\<rparr>" "\<lambda>t. CHR ''#'' \<notin> set t"]
  by (simp add: sampleNote_def content_issues_def)

subsection \<open>The change-dict\<close>

lemma mutate_all_changeDict:
  "snd (mutate_all ms (nd, changeDict)) =
     (\<lambda>f. case last_set ms f of Some v \<Rightarrow> Some v | None \<Rightarrow> changeDict f)"
proof (induction ms arbitrary: nd changeDict)
  case Nil
  then show ?case by simp
next
  case (Cons m ms)
  show ?case
    by (cases m)
      (auto simp: Cons.IH setNoteTitle_def setNoteSubtitle_def setNoteContent_def
        fun_eq_iff split: option.splits)
qed

lemma last_set_None_iff: "last_set ms f = None \<longleftrightarrow> f \<notin> field_of ` set ms"
  by (induction ms) (auto split: option.splits)

lemma last_set_append:
  "last_set (pre @ m # post) f =
     (case last_set post f of
        Some v \<Rightarrow> Some v
      | None \<Rightarrow> (if field_of m = f then Some (value_of m) else last_set pre f))"
  by (induction pre) (auto split: option.splits)

lemma last_set_Some_iff:
  "last_set ms f = Some v \<longleftrightarrow>
     (\<exists>pre m post. ms = pre @ m # post \<and> field_of m = f \<and> value_of m = v
        \<and> f \<notin> field_of ` set post)"
proof
  assume "last_set ms f = Some v"
  then show "\<exists>pre m post. ms = pre @ m # post \<and> field_of m = f \<and> value_of m = v
        \<and> f \<notin> field_of ` set post"
  proof (induction ms)
    case Nil
    then show ?case by simp
  next
    case (Cons a ms)
    show ?case
    proof (cases "last_set ms f")
      case None
      with Cons.prems have "field_of a = f" "value_of a = v"
        by (auto split: if_splits)
      moreover from None have "f \<notin> field_of ` set ms"
        by (simp add: last_set_None_iff)
      ultimately show ?thesis
        by (intro exI [of _ "[]"] exI [of _ a] exI [of _ ms]) simp
    next
      case (Some w)
      with Cons.prems have "w = v" by simp
      with Some Cons.IH obtain pre m post where
        "ms = pre @ m # post" "field_of m = f" "value_of m = v" "f \<notin> field_of ` set post"
        by blast
      then show ?thesis
        by (intro exI [of _ "a # pre"] exI [of _ m] exI [of _ post]) simp
    qed
  qed
next
  assume "\<exists>pre m post. ms = pre @ m # post \<and> field_of m = f \<and> value_of m = v
        \<and> f \<notin> field_of ` set post"
  then obtain pre m post where
    d: "ms = pre @ m # post" "field_of m = f" "value_of m = v" "f \<notin> field_of ` set post"
    by blast
  from d(4) have "last_set post f = None" by (simp add: last_set_None_iff)
  with d(1,2,3) show "last_set ms f = Some v" by (simp add: last_set_append)
qed

lemma field_of_cases: "field_of m \<in> {''title'', ''subtitle'', ''content''}"
  by (cases m) simp_all

text \<open>
  C8. Start from a note built from a backend dict and an empty change-dict, and apply
  any sequence \<open>ms\<close> of the three setters. The keys of the resulting change-dict are
  exactly the properties that some setter of \<open>ms\<close> wrote, hence among title, subtitle
  and content; and a key \<open>f\<close> holds \<open>v\<close> exactly when \<open>ms\<close> contains a setter of
  \<open>f\<close> with value \<open>v\<close> after which no setter writes \<open>f\<close> again.
\<close>

theorem change_dict_round_trip:
  "dom (snd (mutate_all ms (createFromBackendDict d, Map.empty))) = field_of ` set ms
   \<and> dom (snd (mutate_all ms (createFromBackendDict d, Map.empty)))
        \<subseteq> {''title'', ''subtitle'', ''content''}
   \<and> (\<forall>f v. snd (mutate_all ms (createFromBackendDict d, Map.empty)) f = Some v \<longleftrightarrow>
        (\<exists>pre m post. ms = pre @ m # post \<and> field_of m = f \<and> value_of m = v
           \<and> f \<notin> field_of ` set post))"
proof -
  let ?cd = "snd (mutate_all ms (createFromBackendDict d, Map.empty))"
  have cd: "?cd f = last_set ms f" for f
    by (simp add: mutate_all_changeDict split: option.splits)
  have "dom ?cd = field_of ` set ms"
    using last_set_None_iff [of ms] by (auto simp: dom_def cd)
  moreover have "field_of ` set ms \<subseteq> {''title'', ''subtitle'', ''content''}"
    using field_of_cases by blast
  ultimately show ?thesis
    by (simp add: cd last_set_Some_iff)
qed

text \<open>The title is set twice and the content once: the change-dict holds the second title.\<close>

theorem change_dict_round_trip_witness:
  "snd (mutate_all [SetNoteTitle ''story'', SetNoteContent ''<p>Hello World</p>'',
          SetNoteTitle ''story two'']
        (createFromBackendDict
           \<lparr> bd_id = ''sampleId'', displayed_author_name = ''testUsername'',
             bd_title = ''sampleTitle'', bd_subtitle = ''sampleSubTitle'',
             bd_content = ''<p>Hello</p>'', url_fragment = ''sampleUrl'',
             last_updated = Some ''3454354354'', published_on = Some ''3454354354'' \<rparr>,
         Map.empty)) ''title'' = Some ''story two''"
proof -
  let ?ms = "[SetNoteTitle ''story'', SetNoteContent ''<p>Hello World</p>'',
          SetNoteTitle ''story two'']"
  have "\<exists>pre m post. ?ms = pre @ m # post \<and> field_of m = ''title''
      \<and> value_of m = ''story two'' \<and> ''title'' \<notin> field_of ` set post"
    by (intro exI [of _ "[SetNoteTitle ''story'', SetNoteContent ''<p>Hello World</p>'']"]
        exI [of _ "SetNoteTitle ''story two''"] exI [of _ "[]"]) simp
  with change_dict_round_trip [of ?ms] show ?thesis by blast
qed

subsection \<open>Unpublishing\<close>

lemma indexOf_from_found:
  "x \<in> set xs \<Longrightarrow>
   \<exists>k < length xs. indexOf_from xs x i = i + int k \<and> xs ! k = x \<and> (\<forall>j < k. xs ! j \<noteq> x)"
proof (induction xs arbitrary: i)
  case Nil
  then show ?case by simp
next
  case (Cons y ys)
  show ?case
  proof (cases "y = x")
    case True
    then show ?thesis by auto
  next
    case False
    with Cons.prems have "x \<in> set ys" by simp
    from Cons.IH [OF this, of "i + 1"] obtain k where
      k: "k < length ys" "indexOf_from ys x (i + 1) = i + 1 + int k" "ys ! k = x"
         "\<forall>j < k. ys ! j \<noteq> x"
      by blast
    have "\<forall>j < Suc k. (y # ys) ! j \<noteq> x"
      using False k(4) by (auto simp: nth_Cons split: nat.splits)
    with k False show ?thesis
      by (intro exI [of _ "Suc k"]) auto
  qed
qed

lemma splice_one: "k < length xs \<Longrightarrow> splice xs (int k) 1 = take k xs @ drop (Suc k) xs"
  by (simp add: splice_def rel_index_def Let_def min_def max_def nat_add_distrib)

lemma remove1_first:
  "k < length xs \<Longrightarrow> xs ! k = x \<Longrightarrow> \<forall>j < k. xs ! j \<noteq> x \<Longrightarrow>
   remove1 x xs = take k xs @ drop (Suc k) xs"
proof (induction xs arbitrary: k)
  case Nil
  then show ?case by simp
next
  case (Cons y ys)
  show ?case
  proof (cases k)
    case 0
    with Cons.prems show ?thesis by simp
  next
    case (Suc k')
    with Cons.prems have "y \<noteq> x" by auto
    moreover have "remove1 x ys = take k' ys @ drop (Suc k') ys"
      using Cons.prems Suc by (intro Cons.IH) auto
    ultimately show ?thesis using Suc by simp
  qed
qed

text \<open>
  C9. If the summary is in the published list, unpublishing removes one element from
  that list, at a position that holds this very summary (its first occurrence), and
  leaves the others in place; it puts the summary at the front of the draft list in
  front of the unchanged drafts; the published count goes down by one and the draft
  count up by one.
\<close>

theorem unpublish_moves_summary:
  assumes "noteSummary \<in> set (publishedNoteSummaryDicts noteData)"
  shows "\<exists>i < length (publishedNoteSummaryDicts noteData).
           publishedNoteSummaryDicts noteData ! i = noteSummary \<and>
           publishedNoteSummaryDicts (unpublishedNotesPost noteSummary noteData) =
             take i (publishedNoteSummaryDicts noteData) @
             drop (Suc i) (publishedNoteSummaryDicts noteData) \<and>
           publishedNoteSummaryDicts (unpublishedNotesPost noteSummary noteData) =
             remove1 noteSummary (publishedNoteSummaryDicts noteData) \<and>
           draftNoteSummaryDicts (unpublishedNotesPost noteSummary noteData) =
             noteSummary # draftNoteSummaryDicts noteData \<and>
           numOfPublishedNotes (unpublishedNotesPost noteSummary noteData) =
             numOfPublishedNotes noteData - 1 \<and>
           numOfDraftNotes (unpublishedNotesPost noteSummary noteData) =
             numOfDraftNotes noteData + 1"
proof -
  let ?pub = "publishedNoteSummaryDicts noteData"
  from indexOf_from_found [OF assms, of 0] obtain k where
    k: "k < length ?pub" "indexOf ?pub noteSummary = int k" "?pub ! k = noteSummary"
       "\<forall>j < k. ?pub ! j \<noteq> noteSummary"
    by (auto simp: indexOf_def)
  have sp: "splice ?pub (int k) 1 = take k ?pub @ drop (Suc k) ?pub"
    using k(1) by (rule splice_one)
  have rm: "remove1 noteSummary ?pub = take k ?pub @ drop (Suc k) ?pub"
    using k(1,3,4) by (rule remove1_first)
  show ?thesis
    using k(1,3) sp rm
    by (intro exI [of _ k]) (simp add: unpublishedNotesPost_def Let_def k(2) unshift_def)
qed

text \<open>Summary 7 is the second of two published notes and moves in front of draft 9.\<close>

theorem unpublish_moves_summary_witness:
  "publishedNoteSummaryDicts (unpublishedNotesPost (7::nat)
     \<lparr> numOfPublishedNotes = 2, numOfDraftNotes = 1,
       publishedNoteSummaryDicts = [4, 7], draftNoteSummaryDicts = [9] \<rparr>) = [4]
   \<and> draftNoteSummaryDicts (unpublishedNotesPost (7::nat)
     \<lparr> numOfPublishedNotes = 2, numOfDraftNotes = 1,
       publishedNoteSummaryDicts = [4, 7], draftNoteSummaryDicts = [9] \<rparr>) = [7, 9]"
proof -
  let ?d = "\<lparr> numOfPublishedNotes = 2, numOfDraftNotes = 1,
       publishedNoteSummaryDicts = [4, 7::nat], draftNoteSummaryDicts = [9] \<rparr>"
  have "7 \<in> set (publishedNoteSummaryDicts ?d)" by simp
  from unpublish_moves_summary [OF this] obtain i where
    "publishedNoteSummaryDicts (unpublishedNotesPost 7 ?d) =
       remove1 7 (publishedNoteSummaryDicts ?d)"
    "draftNoteSummaryDicts (unpublishedNotesPost 7 ?d) = 7 # draftNoteSummaryDicts ?d"
    by blast
  then show ?thesis by simp
qed

subsection \<open>The search service\<close>

lemma fst_service_run_Cons:
  "fst (service_run (ev # evs) s) = fst (service_run evs (fst (service_step ev s)))"
  by (simp split: prod.splits)

lemma flag_kept_without_resolve:
  "isCurrentlyFetchingResults' s \<Longrightarrow> \<not> is_resolves ev \<Longrightarrow>
   isCurrentlyFetchingResults' (fst (service_step ev s))"
proof (cases ev)
  case (Rejects i e)
  assume "isCurrentlyFetchingResults' s"
  then show ?thesis
    using Rejects by (cases "snd (fetches s ! i)") (simp_all add: rejects_def)
qed (simp_all add: executeSearchQuery_def loadMoreData_def)

lemma flag_kept_run:
  "isCurrentlyFetchingResults' s \<Longrightarrow> \<forall>ev \<in> set evs. \<not> is_resolves ev \<Longrightarrow>
   isCurrentlyFetchingResults' (fst (service_run evs s))"
proof (induction evs arbitrary: s)
  case Nil
  then show ?case by simp
next
  case (Cons ev evs)
  from Cons.prems have "isCurrentlyFetchingResults' (fst (service_step ev s))"
    by (intro flag_kept_without_resolve) auto
  with Cons.IH [of "fst (service_step ev s)"] Cons.prems(2) show ?case
    by (simp only: fst_service_run_Cons) simp
qed

text \<open>
  C1, as the claim states it, fails: \<^verbatim>\<open>executeSearchQuery\<close> does not look at the flag.
  Two calls in a row on a new instance leave two fetches in flight.
\<close>

theorem concurrent_searches_counterexample:
  "fetches (fst (service_run
      [ExecuteSearchQuery ''a'' (Some UpdateUrl) None :: (cb, nat) service_event,
       ExecuteSearchQuery ''b'' (Some UpdateUrl) None] new_service)) =
     [(SearchUrl (Some ''a'') None, ExecuteSearchQueryThen ''a'' None),
      (SearchUrl (Some ''b'') None, ExecuteSearchQueryThen ''b'' None)]"
  by code_simp

text \<open>
  C1, amended. Every call of \<^verbatim>\<open>executeSearchQuery\<close> issues one more fetch, whatever is
  in flight. Only \<^verbatim>\<open>loadMoreData\<close> is guarded: while the flag is set the call changes
  nothing (no fetch is issued, queued or cancelled) and calls the failure callback, if
  there is one, with \<^verbatim>\<open>hasReachedLastPage()\<close>. The flag is set from the moment
  \<^verbatim>\<open>executeSearchQuery\<close>, or a \<^verbatim>\<open>loadMoreData\<close> that fetched, has issued its fetch
  until a fetch of the instance resolves: whatever calls and rejections \<open>evs\<close> happen
  in between, a \<^verbatim>\<open>loadMoreData\<close> call leaves the state as it is.
\<close>

theorem only_loadMoreData_is_guarded:
  "fetches (fst (executeSearchQuery q sc ec s)) =
     fetches s @ [(SearchUrl (Some q) None, ExecuteSearchQueryThen q ec)]
   \<and> (isCurrentlyFetchingResults' s \<longrightarrow>
        loadMoreData sc' fc s = (s, call_if fc (\<lambda>c. FailureCallback c (hasReachedLastPage s))))
   \<and> ((\<forall>ev \<in> set evs. \<not> is_resolves ev) \<longrightarrow>
        fst (loadMoreData sc' fc (fst (service_run (ExecuteSearchQuery q sc ec # evs) s))) =
          fst (service_run (ExecuteSearchQuery q sc ec # evs) s))
   \<and> ((\<forall>ev \<in> set evs. \<not> is_resolves ev) \<and> \<not> isCurrentlyFetchingResults' s
         \<and> \<not> hasReachedLastPage s \<longrightarrow>
        length (fetches (fst (loadMoreData sc fc s))) = length (fetches s) + 1 \<and>
        fst (loadMoreData sc' fc (fst (service_run (LoadMoreData sc fc # evs) s))) =
          fst (service_run (LoadMoreData sc fc # evs) s))"
proof (intro conjI impI)
  show "fetches (fst (executeSearchQuery q sc ec s)) =
     fetches s @ [(SearchUrl (Some q) None, ExecuteSearchQueryThen q ec)]"
    by (simp add: executeSearchQuery_def)
next
  assume "isCurrentlyFetchingResults' s"
  then show "loadMoreData sc' fc s =
      (s, call_if fc (\<lambda>c. FailureCallback c (hasReachedLastPage s)))"
    by (simp add: loadMoreData_def)
next
  assume nores: "\<forall>ev \<in> set evs. \<not> is_resolves ev"
  have "isCurrentlyFetchingResults' (fst (service_run (ExecuteSearchQuery q sc ec # evs) s))"
    unfolding fst_service_run_Cons
    using nores by (intro flag_kept_run) (simp_all add: executeSearchQuery_def)
  then show "fst (loadMoreData sc' fc (fst (service_run (ExecuteSearchQuery q sc ec # evs) s))) =
          fst (service_run (ExecuteSearchQuery q sc ec # evs) s)"
    by (simp add: loadMoreData_def)
next
  assume a: "(\<forall>ev \<in> set evs. \<not> is_resolves ev) \<and> \<not> isCurrentlyFetchingResults' s
         \<and> \<not> hasReachedLastPage s"
  then show "length (fetches (fst (loadMoreData sc fc s))) = length (fetches s) + 1"
    by (simp add: loadMoreData_def)
  have "isCurrentlyFetchingResults' (fst (service_run (LoadMoreData sc fc # evs) s))"
    unfolding fst_service_run_Cons
    using a by (intro flag_kept_run) (simp_all add: loadMoreData_def)
  then show "fst (loadMoreData sc' fc (fst (service_run (LoadMoreData sc fc # evs) s))) =
          fst (service_run (LoadMoreData sc fc # evs) s)"
    by (simp add: loadMoreData_def)
qed

text \<open>
  A query is sent and its fetch fails: nothing is in flight any more, and the next
  \<^verbatim>\<open>loadMoreData\<close> still issues no fetch.
\<close>

theorem only_loadMoreData_is_guarded_witness:
  "fetches (fst (loadMoreData (Some ShowMoreResults) (Some WarnEndOfResults)
      (fst (service_run
        [ExecuteSearchQuery ''a'' (Some UpdateUrl) None :: (cb, nat) service_event,
         Rejects 0 \<lparr>status = 500, error = ''down''\<rparr>] new_service)))) = []"
proof -
  have "\<forall>ev \<in> set [Rejects 0 \<lparr>status = 500, error = ''down''\<rparr> :: (cb, nat) service_event].
      \<not> is_resolves ev"
    by simp
  with only_loadMoreData_is_guarded
    [of "''a''" "Some UpdateUrl" None new_service "Some ShowMoreResults"
        "Some WarnEndOfResults" "[Rejects 0 \<lparr>status = 500, error = ''down''\<rparr>]"]
  have a: "fst (loadMoreData (Some ShowMoreResults) (Some WarnEndOfResults)
      (fst (service_run
        [ExecuteSearchQuery ''a'' (Some UpdateUrl) None :: (cb, nat) service_event,
         Rejects 0 \<lparr>status = 500, error = ''down''\<rparr>] new_service))) =
     fst (service_run
        [ExecuteSearchQuery ''a'' (Some UpdateUrl) None :: (cb, nat) service_event,
         Rejects 0 \<lparr>status = 500, error = ''down''\<rparr>] new_service)"
    by blast
  have b: "fetches (fst (service_run
        [ExecuteSearchQuery ''a'' (Some UpdateUrl) None :: (cb, nat) service_event,
         Rejects 0 \<lparr>status = 500, error = ''down''\<rparr>] new_service)) = []"
    by code_simp
  show ?thesis by (simp only: a b)
qed

lemma terminal_step:
  assumes "searchOffset' s = Null" "\<forall>f \<in> set (fetches s). \<not> is_load_more_fetch f"
    "\<not> is_resolves ev"
  shows "searchOffset' (fst (service_step ev s)) = Null \<and>
         (\<forall>f \<in> set (fetches (fst (service_step ev s))). \<not> is_load_more_fetch f)"
proof (cases ev)
  case (ExecuteSearchQuery q sc ec)
  with assms show ?thesis by (simp add: executeSearchQuery_def)
next
  case (LoadMoreData sc fc)
  with assms show ?thesis by (simp add: loadMoreData_def hasReachedLastPage_def)
next
  case (Resolves i r)
  with assms show ?thesis by simp
next
  case (Rejects i e)
  have sub: "set (remove_nth i (fetches s)) \<subseteq> set (fetches s)"
    unfolding remove_nth_def
    by (metis set_append set_take_subset set_drop_subset Un_mono sup.idem)
  show ?thesis
  proof (cases "i < length (fetches s)")
    case True
    then have "\<not> is_load_more_fetch (fetches s ! i)" using assms(2) by simp
    then obtain u q ec where "fetches s ! i = (u, ExecuteSearchQueryThen q ec)"
      by (cases "fetches s ! i" rule: is_load_more_fetch.cases) simp_all
    with True Rejects assms sub show ?thesis by (auto simp: rejects_def)
  next
    case False
    with Rejects assms show ?thesis by (simp add: rejects_def)
  qed
qed

lemma terminal_run:
  assumes "searchOffset' s = Null" "\<forall>f \<in> set (fetches s). \<not> is_load_more_fetch f"
    "\<forall>ev \<in> set evs. \<not> is_resolves ev"
  shows "searchOffset' (fst (service_run evs s)) = Null \<and>
         (\<forall>f \<in> set (fetches (fst (service_run evs s))). \<not> is_load_more_fetch f)"
  using assms
proof (induction evs arbitrary: s)
  case Nil
  then show ?case by simp
next
  case (Cons ev evs)
  from Cons.prems have "\<not> is_resolves ev" by simp
  from terminal_step [OF Cons.prems(1,2) this] Cons.prems(3)
  show ?case
    unfolding fst_service_run_Cons by (intro Cons.IH) simp_all
qed

text \<open>
  C3, as the claim states it, fails when a fetch of \<^verbatim>\<open>loadMoreData\<close> is still in
  flight. After \<open>stale_events\<close> the null offset of the current query b has been
  observed. No further query is submitted; the late answer to the fetch for query a
  arrives, overwrites the offset, and the next \<^verbatim>\<open>loadMoreData\<close> call issues a fetch
  for query b at offset 7.
\<close>

theorem stale_response_counterexample:
  "searchOffset' (fst (service_run stale_events new_service)) = Null
   \<and> lastQuery' (fst (service_run stale_events new_service)) = Some ''b''
   \<and> fetches (fst (service_run
        (stale_events @ [stale_response,
           LoadMoreData (Some ShowMoreResults) (Some WarnEndOfResults)]) new_service)) =
       [(SearchUrl (Some ''b'') (Some 7), LoadMoreDataThen (Some ShowMoreResults))]"
  by code_simp

text \<open>
  C3, amended. Let the stored offset be null and let no fetch of \<^verbatim>\<open>loadMoreData\<close> be
  in flight. Then, whatever calls of the two operations and rejections \<open>evs\<close> follow,
  as long as no fetch resolves: the last page is still reached, a \<^verbatim>\<open>loadMoreData\<close>
  call changes nothing (it issues no fetch) and calls the failure callback, if there is
  one, with \<open>True\<close>, and still no fetch of \<^verbatim>\<open>loadMoreData\<close> is in flight, so the
  only fetches that can resolve are those of \<^verbatim>\<open>executeSearchQuery\<close>. When one does
  resolve, the last page is reached exactly if its response has a null offset again.
\<close>

theorem terminal_state_is_sticky:
  assumes "searchOffset' s = Null"
    and "\<forall>f \<in> set (fetches s). \<not> is_load_more_fetch f"
    and "\<forall>ev \<in> set evs. \<not> is_resolves ev"
  shows "hasReachedLastPage (fst (service_run evs s))
     \<and> loadMoreData sc fc (fst (service_run evs s)) =
         (fst (service_run evs s), call_if fc (\<lambda>c. FailureCallback c True))
     \<and> (\<forall>f \<in> set (fetches (fst (service_run evs s))). \<not> is_load_more_fetch f)
     \<and> (i < length (fetches (fst (service_run evs s))) \<longrightarrow>
          hasReachedLastPage (fst (resolves i r (fst (service_run evs s)))) =
            (searchOffset r = Null))"
proof -
  let ?s = "fst (service_run evs s)"
  from terminal_run [OF assms] have t: "searchOffset' ?s = Null"
    "\<forall>f \<in> set (fetches ?s). \<not> is_load_more_fetch f"
    by simp_all
  have "i < length (fetches ?s) \<Longrightarrow>
      hasReachedLastPage (fst (resolves i r ?s)) = (searchOffset r = Null)"
    by (cases "snd (fetches ?s ! i)") (simp_all add: resolves_def hasReachedLastPage_def)
  with t show ?thesis
    by (simp add: loadMoreData_def hasReachedLastPage_def)
qed

text \<open>
  In the terminal state reached by \<open>terminal_events\<close>: more data is asked for, a new
  query is submitted and its fetch fails. The next \<^verbatim>\<open>loadMoreData\<close> call reports the
  last page and leaves the state, with nothing in flight, as it is.
\<close>

theorem terminal_state_is_sticky_witness:
  "loadMoreData (Some ShowMoreResults) (Some WarnEndOfResults)
     (fst (service_run
        [LoadMoreData (Some ShowMoreResults) (Some WarnEndOfResults)
           :: (cb, nat) service_event,
         ExecuteSearchQuery ''b'' None None,
         Rejects 0 \<lparr>status = 500, error = ''down''\<rparr>]
        (fst (service_run terminal_events new_service)))) =
   (\<lparr> lastQuery' = Some ''a'', searchOffset' = Null, isCurrentlyFetchingResults' = True,
      numSearchesInProgress = 0, fetches = [] \<rparr>,
    [FailureCallback WarnEndOfResults True :: (cb, nat) call])"
proof -
  let ?s = "fst (service_run terminal_events new_service)"
  let ?evs = "[LoadMoreData (Some ShowMoreResults) (Some WarnEndOfResults),
         ExecuteSearchQuery ''b'' None None,
         Rejects 0 \<lparr>status = 500, error = ''down''\<rparr>] :: (cb, nat) service_event list"
  have 1: "searchOffset' ?s = Null"
    by code_simp
  have 2: "\<forall>f \<in> set (fetches ?s). \<not> is_load_more_fetch f"
    by code_simp
  have 3: "\<forall>ev \<in> set ?evs. \<not> is_resolves ev"
    by simp
  from terminal_state_is_sticky [OF 1 2 3, of "Some ShowMoreResults" "Some WarnEndOfResults"]
  have a: "loadMoreData (Some ShowMoreResults) (Some WarnEndOfResults)
        (fst (service_run ?evs ?s)) =
      (fst (service_run ?evs ?s),
       call_if (Some WarnEndOfResults) (\<lambda>c. FailureCallback c True :: (cb, nat) call))"
    by blast
  have b: "fst (service_run ?evs ?s) =
      \<lparr> lastQuery' = Some ''a'', searchOffset' = Null, isCurrentlyFetchingResults' = True,
        numSearchesInProgress = 0, fetches = [] \<rparr>"
    by code_simp
  have c: "call_if (Some WarnEndOfResults) (\<lambda>c. FailureCallback c True :: (cb, nat) call) =
      [FailureCallback WarnEndOfResults True]"
    by (simp add: call_if_def)
  show ?thesis
    by (subst a) (simp only: b c)
qed

lemma no_success_callback_in_call_if:
  assumes "\<And>c. f c \<noteq> SuccessCallback c'"
  shows "SuccessCallback c' \<notin> set (call_if callback f)"
proof (cases callback)
  case None
  then show ?thesis by (simp add: call_if_def)
next
  case (Some a)
  then show ?thesis using assms [of a] by (auto simp: call_if_def)
qed

text \<open>
  C10. A call of \<^verbatim>\<open>executeSearchQuery\<close> with a success callback calls it once, in the
  call itself, while the fetch it has just issued is still in flight. No handler of a
  settled fetch calls a success callback. So the callback has been called once when
  the fetch is rejected, as it has been when the fetch resolves, where the arrival of
  the results is signalled by the event, not by the callback.
\<close>

theorem success_callback_is_synchronous:
  "snd (executeSearchQuery q (Some c) ec s) = [SuccessCallback c]
   \<and> fetches (fst (executeSearchQuery q (Some c) ec s)) =
       fetches s @ [(SearchUrl (Some q) None, ExecuteSearchQueryThen q ec)]
   \<and> SuccessCallback c' \<notin> set (snd (resolves i r' s'))
   \<and> SuccessCallback c' \<notin> set (snd (rejects i e' s'))
   \<and> snd (service_run
        [ExecuteSearchQuery q (Some c) ec, Rejects (length (fetches s)) e] s) =
       SuccessCallback c # call_if ec (\<lambda>c. ErrorCallback c (error e))
   \<and> snd (service_run
        [ExecuteSearchQuery q (Some c) ec, Resolves (length (fetches s)) r] s) =
       [SuccessCallback c, InitialSearchResultsLoaded r]"
proof -
  have 1: "SuccessCallback c' \<notin> set (snd (resolves i r' s'))"
    by (cases "snd (fetches s' ! i)")
      (simp_all add: resolves_def no_success_callback_in_call_if)
  have 2: "SuccessCallback c' \<notin> set (snd (rejects i e' s'))"
    by (cases "snd (fetches s' ! i)")
      (simp_all add: rejects_def no_success_callback_in_call_if)
  show ?thesis
    using 1 2
    by (simp add: executeSearchQuery_def call_if_def rejects_def resolves_def remove_nth_def)
qed

subsection \<open>The page window\<close>

lemma take_drop_nths: "take m (drop k xs) = nths xs {k..<k + m}"
proof -
  have "take m (drop k xs) = nths (drop k xs) {..<m}"
    by (simp only: nths_upt_eq_take)
  also have "\<dots> = nths xs ((+) k ` {..<m})"
    by (simp only: nths_drop)
  also have "(+) k ` {..<m} = {k..<k + m}"
  proof (intro set_eqI iffI)
    fix x
    assume "x \<in> (+) k ` {..<m}"
    then show "x \<in> {k..<k + m}" by auto
  next
    fix x
    assume "x \<in> {k..<k + m}"
    then have "x = k + (x - k)" and "x - k \<in> {..<m}" by auto
    then show "x \<in> (+) k ` {..<m}" by (rule image_eqI)
  qed
  finally show ?thesis .
qed

lemma nths_cong_length:
  assumes "\<And>i. i < length xs \<Longrightarrow> i \<in> A \<longleftrightarrow> i \<in> B"
  shows "nths xs A = nths xs B"
proof -
  have "filter (\<lambda>p. snd p \<in> A) (zip xs [0..<length xs]) =
        filter (\<lambda>p. snd p \<in> B) (zip xs [0..<length xs])"
    using assms by (intro filter_cong) (auto dest!: set_zip_rightD)
  then show ?thesis by (simp add: nths_def)
qed

lemma slice_window:
  assumes "1 \<le> lo" "0 \<le> hi"
  shows "slice xs (lo - 1) (Num hi) = nths xs {i. lo - 1 \<le> int i \<and> int i \<le> hi - 1}"
proof -
  let ?n = "int (length xs)"
  let ?k = "nat (min (lo - 1) ?n)"
  let ?m = "nat (min hi ?n - min (lo - 1) ?n)"
  have "slice xs (lo - 1) (Num hi) = take ?m (drop ?k xs)"
    using assms by (simp add: slice_def rel_index_def Let_def)
  also have "\<dots> = nths xs {?k..<?k + ?m}"
    by (rule take_drop_nths)
  also have "\<dots> = nths xs {i. lo - 1 \<le> int i \<and> int i \<le> hi - 1}"
    using assms by (intro nths_cong_length) auto
  finally show ?thesis .
qed

text \<open>
  C4. For a page number and a page size of at least 1 and a total count of at least 0,
  the first index is \<open>(pageNum - 1) * pageSize + 1\<close>, the last index is the minimum of
  \<open>pageNum * pageSize\<close> and the total count, and the notes shown are the elements
  of the buffer at the 0-based positions from the first index minus 1 to the last index
  minus 1, in their order (\<open>nths\<close> selects the elements at the positions of a set).
\<close>

theorem page_window:
  assumes "1 \<le> pageNum" and "1 \<le> pageSize" and "totalNotes c = Num totalCount"
    and "0 \<le> totalCount"
  shows "firstPostOnPageNum (calculateFirstPostOnPageNum pageNum pageSize c) =
           (pageNum - 1) * pageSize + 1
     \<and> lastPostOnPageNum (calculateLastPostOnPageNum pageNum pageSize c) =
           Num (min (pageNum * pageSize) totalCount)
     \<and> noteSummariesToShow
         (selectNoteSummariesToShow
           (calculateLastPostOnPageNum pageNum pageSize
             (calculateFirstPostOnPageNum pageNum pageSize c))) =
         nths (noteSummaries c)
           {i. (pageNum - 1) * pageSize + 1 - 1 \<le> int i \<and>
               int i \<le> min (pageNum * pageSize) totalCount - 1}"
proof -
  have f: "1 \<le> (pageNum - 1) * pageSize + 1"
    using assms(1,2) by simp
  have l: "0 \<le> min (pageNum * pageSize) totalCount"
    using assms(1,2,4) by simp
  show ?thesis
    using slice_window [OF f l, of "noteSummaries c"] assms(3)
    by (simp add: calculateFirstPostOnPageNum_def calculateLastPostOnPageNum_def
        selectNoteSummariesToShow_def)
qed

text \<open>
  Seven notes, five to a page: page 1 shows the notes at positions 0 to 4, page 2 the
  two notes at positions 5 and 6, and the last index of page 2 is 7.
\<close>

theorem page_window_witness:
  "noteSummariesToShow
     (selectNoteSummariesToShow
       (calculateLastPostOnPageNum 1 5 (calculateFirstPostOnPageNum 1 5 seven_notes))) =
     [100, 101, 102, 103, 104]
   \<and> noteSummariesToShow
     (selectNoteSummariesToShow
       (calculateLastPostOnPageNum 2 5 (calculateFirstPostOnPageNum 2 5 seven_notes))) =
     [105, 106]
   \<and> lastPostOnPageNum (calculateLastPostOnPageNum 2 5 seven_notes) = Num 7"
proof -
  have t: "totalNotes seven_notes = Num 7" by (simp add: seven_notes_def)
  have n: "noteSummaries seven_notes = [100, 101, 102, 103, 104, 105, 106]"
    by (simp add: seven_notes_def)
  from page_window [of 1 5 seven_notes 7, OF _ _ t]
  have 1: "noteSummariesToShow
     (selectNoteSummariesToShow
       (calculateLastPostOnPageNum 1 5 (calculateFirstPostOnPageNum 1 5 seven_notes))) =
     nths (noteSummaries seven_notes) {i. 0 \<le> int i \<and> int i \<le> 4}"
    by simp
  from page_window [of 2 5 seven_notes 7, OF _ _ t]
  have 2: "noteSummariesToShow
     (selectNoteSummariesToShow
       (calculateLastPostOnPageNum 2 5 (calculateFirstPostOnPageNum 2 5 seven_notes))) =
     nths (noteSummaries seven_notes) {i. 5 \<le> int i \<and> int i \<le> 6}"
    and 3: "lastPostOnPageNum (calculateLastPostOnPageNum 2 5 seven_notes) = Num 7"
    by simp_all
  show ?thesis
    unfolding 1 2 3 n by (simp add: nths_Cons)
qed

subsection \<open>Failed fetches\<close>





subsection \<open>Loading a page\<close>

text \<open>
  C5, as the claim states it, fails on the search page once the last page is reached:
  after \<open>last_page_events\<close> the buffer holds two notes and page 2 starts at index 3,
  nothing is in flight, and \<^verbatim>\<open>loadPage\<close> issues no fetch.
\<close>

theorem no_fetch_at_last_page_counterexample:
  "int (length (noteSummaries (component (page_run [] last_page_events search_page))))
     < firstPostOnPageNum (component (page_run [] last_page_events search_page))
   \<and> in_flight (page_run [] last_page_events search_page) = 0
   \<and> in_flight (loadPage (page_run [] last_page_events search_page)) = 0"
  by code_simp

text \<open>
  C5, amended. If the buffer holds at least as many notes as the first index of the
  page, \<^verbatim>\<open>loadPage\<close> issues no fetch and only selects the notes to show from the
  buffer. If the buffer is too short, one call issues at most one fetch: exactly one,
  for the offset before the first index, when the page lists all notes; exactly one,
  through \<^verbatim>\<open>loadMoreData\<close>, on the search page when the service is neither fetching
  nor at the last page; and none on the search page otherwise, where a warning is added
  instead. In every case the number of fetches in flight grows by at most one.
\<close>

theorem loadPage_fetches_at_most_once:
  "(firstPostOnPageNum (component w) \<le> int (length (noteSummaries (component w))) \<longrightarrow>
      loadPage w = w\<lparr>component := selectNoteSummariesToShow (component w)\<rparr> \<and>
      in_flight (loadPage w) = in_flight w)
   \<and> (int (length (noteSummaries (component w))) < firstPostOnPageNum (component w) \<and>
       \<not> searchPageIsActive (component w) \<longrightarrow>
      homeFetches (component (loadPage w)) =
        homeFetches (component w) @
          [(firstPostOnPageNum (component w) - 1, LoadMoreNoteSummariesThen)] \<and>
      service (loadPage w) = service w)
   \<and> (int (length (noteSummaries (component w))) < firstPostOnPageNum (component w) \<and>
       searchPageIsActive (component w) \<and>
       \<not> isCurrentlyFetchingResults' (service w) \<and> \<not> hasReachedLastPage (service w) \<longrightarrow>
      fetches (service (loadPage w)) =
        fetches (service w) @
          [(SearchUrl (lastQuery' (service w)) (offset_param (searchOffset' (service w))),
            LoadMoreDataThen (Some ShowMoreResults))] \<and>
      homeFetches (component (loadPage w)) = homeFetches (component w))
   \<and> (int (length (noteSummaries (component w))) < firstPostOnPageNum (component w) \<and>
       searchPageIsActive (component w) \<and>
       (isCurrentlyFetchingResults' (service w) \<or> hasReachedLastPage (service w)) \<longrightarrow>
      in_flight (loadPage w) = in_flight w \<and>
      service (loadPage w) = service w \<and>
      warnings (component (loadPage w)) =
        warnings (component w) @ [''No more search resutls found. End of search results.''])
   \<and> in_flight (loadPage w) \<le> in_flight w + 1"
  by (simp add: loadPage_def Let_def with_service_def loadMoreData_def call_if_def
      loadMoreNoteSummaries_def selectNoteSummariesToShow_def addWarning_def in_flight_def)

text \<open>
  With the first page of two notes loaded and more to come: loading page 1 again shows
  the two notes without a fetch, and loading page 2 issues the one fetch for offset 5.
\<close>

theorem loadPage_fetches_at_most_once_witness:
  "fetches (service (loadPage second_page_wanted)) =
     [(SearchUrl (Some ''a'') (Some 5), LoadMoreDataThen (Some ShowMoreResults))]
   \<and> noteSummariesToShow (component (loadPage first_page_loaded)) = [1, 2]
   \<and> in_flight (loadPage first_page_loaded) = 0"
proof -
  have a: "int (length (noteSummaries (component second_page_wanted)))
        < firstPostOnPageNum (component second_page_wanted) \<and>
       searchPageIsActive (component second_page_wanted) \<and>
       \<not> isCurrentlyFetchingResults' (service second_page_wanted) \<and>
       \<not> hasReachedLastPage (service second_page_wanted)"
    by code_simp
  have b: "firstPostOnPageNum (component first_page_loaded)
        \<le> int (length (noteSummaries (component first_page_loaded)))"
    by code_simp
  have c: "fetches (service second_page_wanted) = []"
    "lastQuery' (service second_page_wanted) = Some ''a''"
    "offset_param (searchOffset' (service second_page_wanted)) = Some 5"
    "in_flight first_page_loaded = 0"
    "noteSummariesToShow (component
       (first_page_loaded\<lparr>component := selectNoteSummariesToShow (component first_page_loaded)\<rparr>))
       = [1, 2]"
    by code_simp+
  from loadPage_fetches_at_most_once [of second_page_wanted] a
  have 1: "fetches (service (loadPage second_page_wanted)) =
        fetches (service second_page_wanted) @
          [(SearchUrl (lastQuery' (service second_page_wanted))
              (offset_param (searchOffset' (service second_page_wanted))),
            LoadMoreDataThen (Some ShowMoreResults))]"
    by blast
  from loadPage_fetches_at_most_once [of first_page_loaded] b
  have 2: "loadPage first_page_loaded =
      first_page_loaded\<lparr>component := selectNoteSummariesToShow (component first_page_loaded)\<rparr>"
    "in_flight (loadPage first_page_loaded) = in_flight first_page_loaded"
    by blast+
  have 3: "fetches (service (loadPage second_page_wanted)) =
     [(SearchUrl (Some ''a'') (Some 5), LoadMoreDataThen (Some ShowMoreResults))]"
    using 1 c(1,2,3) by simp
  have 4: "noteSummariesToShow (component (loadPage first_page_loaded)) = [1, 2]"
    using 2(1) c(5) by simp
  have 5: "in_flight (loadPage first_page_loaded) = 0"
    using 2(2) c(4) by simp
  from 3 4 5 show ?thesis by simp
qed

subsection \<open>A new query\<close>






end
